theory Spec2Isabelle
  imports Main
begin

section \<open>JavaScript values and the truthiness test\<close>

text \<open>
  Both hooks test the value they read with \<^verbatim>\<open>!context\<close>. The operator \<^verbatim>\<open>!\<close> applies
  the language's ToBoolean conversion, so the model needs the whole universe of
  JavaScript values, not only the values the TypeScript annotation
  \<^verbatim>\<open>TaskContextType\<close> admits: annotations are erased before the code runs.

  A number is an IEEE double. Only its class matters to ToBoolean, so a finite double is
  kept as sign, mantissa and exponent (it denotes \<open>\<plusminus> m * 2 ^ e\<close>); the two zeros are
  the finite doubles with mantissa \<open>0\<close>.
\<close>

datatype jsnumber =
    NaN
  | PosInfinity
  | NegInfinity
  | Finite bool nat int

fun number_truthy :: "jsnumber \<Rightarrow> bool" where
  "number_truthy NaN = False"
| "number_truthy PosInfinity = True"
| "number_truthy NegInfinity = True"
| "number_truthy (Finite negative mantissa exponent) = (mantissa \<noteq> 0)"

text \<open>
  Objects (functions and arrays included) and symbols are kept by identity: the hooks
  never look inside the value they pass on. An object carries one more thing that
  ToBoolean reads, its \<^verbatim>\<open>[[IsHTMLDDA]]\<close> internal slot: the language's Annex B, which
  browsers implement, makes ToBoolean false on an object that has the slot
  (\<^verbatim>\<open>document.all\<close>) and true on every other object. The first argument of \<open>JObject\<close>
  says whether the object has the slot, the second is its identity.
\<close>

datatype jsval =
    JUndefined
  | JNull
  | JBoolean bool
  | JNumber jsnumber
  | JBigInt int
  | JString string
  | JSymbol nat
  | JObject bool nat

fun ToBoolean :: "jsval \<Rightarrow> bool" where
  "ToBoolean JUndefined = False"
| "ToBoolean JNull = False"
| "ToBoolean (JBoolean b) = b"
| "ToBoolean (JNumber n) = number_truthy n"
| "ToBoolean (JBigInt i) = (i \<noteq> 0)"
| "ToBoolean (JString s) = (s \<noteq> [])"
| "ToBoolean (JSymbol r) = True"
| "ToBoolean (JObject htmldda r) = (\<not> htmldda)"

text \<open>The value built by \<^verbatim>\<open>new Error(message)\<close>.\<close>

datatype js_error = Error string

section \<open>The ambient context state\<close>

text \<open>
  The hooks take no argument: they read the ambient scope of the component that calls
  them. That scope holds, for each of the two contexts, the value \<^verbatim>\<open>useContext\<close>
  yields at the call site: the value of the nearest enclosing Provider, or the context's
  default when there is none. The modules \<^verbatim>\<open>@/context/TaskContext\<close> and
  \<^verbatim>\<open>@/context/UIContext\<close> that create the contexts are not among the sources; the
  specification gives the container the shape \<^verbatim>\<open>T | undefined\<close> and says it is undefined
  outside the Provider's subtree, so an absent Provider is the field value
  \<open>JUndefined\<close>.
\<close>

record ambient =
  TaskContext :: jsval
  UIContext :: jsval

text \<open>
  A hook is a computation over the ambient state that either throws or returns, and
  hands the state on: \<open>Inl\<close> is a thrown error, \<open>Inr\<close> a returned value.
\<close>

type_synonym 'a hook = "ambient \<Rightarrow> (js_error + 'a) \<times> ambient"

definition returns :: "'a \<Rightarrow> 'a hook" where
  "returns v s = (Inr v, s)"

definition throw :: "js_error \<Rightarrow> 'a hook" where
  "throw e s = (Inl e, s)"

definition seq :: "'a hook \<Rightarrow> ('a \<Rightarrow> 'b hook) \<Rightarrow> 'b hook" where
  "seq m f s = (case m s of (Inl e, s') \<Rightarrow> (Inl e, s') | (Inr v, s') \<Rightarrow> f v s')"

text \<open>React's \<^verbatim>\<open>useContext\<close>: read the container of the given context.\<close>

definition useContext :: "(ambient \<Rightarrow> jsval) \<Rightarrow> jsval hook" where
  "useContext ctx s = (Inr (ctx s), s)"

section \<open>The hooks\<close>

text \<open>
  \<^verbatim>\<open>
  export function useTask(): TaskContextType {
    const context = useContext(TaskContext)
    if (!context) {
      throw new Error('useTask must be used within a TaskProvider')
    }
    return context
  }
  \<close>
\<close>

definition useTask :: "jsval hook" where
  "useTask =
     seq (useContext TaskContext) (\<lambda>context.
       if \<not> ToBoolean context
       then throw (Error ''useTask must be used within a TaskProvider'')
       else returns context)"

text \<open>
  \<^verbatim>\<open>
  export function useUI(): UIContextType {
    const context = useContext(UIContext)
    if (!context) {
      throw new Error('useUI must be used within a UIProvider')
    }
    return context
  }
  \<close>
\<close>

definition useUI :: "jsval hook" where
  "useUI =
     seq (useContext UIContext) (\<lambda>context.
       if \<not> ToBoolean context
       then throw (Error ''useUI must be used within a UIProvider'')
       else returns context)"

section \<open>What a call computes\<close>

lemma useTask_run:
  "useTask s =
     (if ToBoolean (TaskContext s) then Inr (TaskContext s)
      else Inl (Error ''useTask must be used within a TaskProvider''), s)"
  by (simp add: useTask_def seq_def useContext_def throw_def returns_def)

lemma useUI_run:
  "useUI s =
     (if ToBoolean (UIContext s) then Inr (UIContext s)
      else Inl (Error ''useUI must be used within a UIProvider''), s)"
  by (simp add: useUI_def seq_def useContext_def throw_def returns_def)

text \<open>
  An object with the \<^verbatim>\<open>[[IsHTMLDDA]]\<close> slot is falsy, so both hooks throw on it as they
  do on \<^verbatim>\<open>null\<close>; every other object is handed back.
\<close>

lemma htmldda_object_throws:
  "fst (useTask (s\<lparr>TaskContext := JObject True r\<rparr>))
     = Inl (Error ''useTask must be used within a TaskProvider'')
   \<and> fst (useUI (s\<lparr>UIContext := JObject True r\<rparr>))
     = Inl (Error ''useUI must be used within a UIProvider'')"
  by (simp add: useTask_run useUI_run)

lemma ordinary_object_returned:
  "fst (useTask (s\<lparr>TaskContext := JObject False r\<rparr>)) = Inr (JObject False r)
   \<and> fst (useUI (s\<lparr>UIContext := JObject False r\<rparr>)) = Inr (JObject False r)"
  by (simp add: useTask_run useUI_run)

section \<open>The hooks leave the ambient state alone\<close>

text \<open>
  Claim C7. A call of \<open>useTask\<close> or of \<open>useUI\<close>, whether it returns or throws, hands
  on the ambient state it was given: both context containers hold afterwards what they
  held before.
\<close>

theorem hooks_do_not_mutate:
  "snd (useTask s) = s \<and> snd (useUI s) = s
   \<and> TaskContext (snd (useTask s)) = TaskContext s
   \<and> UIContext (snd (useTask s)) = UIContext s
   \<and> TaskContext (snd (useUI s)) = TaskContext s
   \<and> UIContext (snd (useUI s)) = UIContext s"
  by (simp add: useTask_run useUI_run)

section \<open>Reading a container that is there\<close>

text \<open>
  Claim C1, as the specification states it: for every context value \<open>S\<close> other than
  undefined, \<open>useTask\<close> returns exactly \<open>S\<close> when the task container holds \<open>S\<close>.
  A Provider whose value is \<^verbatim>\<open>null\<close> refutes it: \<^verbatim>\<open>!null\<close> is true, so the hook
  throws instead of returning \<^verbatim>\<open>null\<close>.
\<close>

theorem useTask_null_container_throws:
  "JNull \<noteq> JUndefined
   \<and> fst (useTask \<lparr>TaskContext = JNull, UIContext = JObject False 0\<rparr>)
       = Inl (Error ''useTask must be used within a TaskProvider'')
   \<and> fst (useTask \<lparr>TaskContext = JNull, UIContext = JObject False 0\<rparr>) \<noteq> Inr JNull"
  by (simp add: useTask_run)

text \<open>
  Claim C1, amended: for every truthy context value \<open>S\<close>, \<open>useTask\<close> returns exactly
  \<open>S\<close> when the task container holds \<open>S\<close>, and \<open>useUI\<close> returns exactly \<open>S\<close> when
  the UI container holds \<open>S\<close>; nothing is done to the value on the way. Truthy is what
  \<open>ToBoolean\<close> accepts: an object with the \<^verbatim>\<open>[[IsHTMLDDA]]\<close> slot is not among these
  values.
\<close>

theorem accessor_returns_truthy_container:
  "ToBoolean S \<Longrightarrow>
     fst (useTask (s\<lparr>TaskContext := S\<rparr>)) = Inr S
     \<and> fst (useUI (s\<lparr>UIContext := S\<rparr>)) = Inr S"
  by (simp add: useTask_run useUI_run)

theorem accessor_returns_truthy_container_witness:
  "ToBoolean (JObject False 7)
   \<and> fst (useTask (\<lparr>TaskContext = JUndefined, UIContext = JUndefined\<rparr>
                     \<lparr>TaskContext := JObject False 7\<rparr>)) = Inr (JObject False 7)
   \<and> fst (useUI (\<lparr>TaskContext = JUndefined, UIContext = JUndefined\<rparr>
                   \<lparr>UIContext := JObject False 7\<rparr>)) = Inr (JObject False 7)"
  using accessor_returns_truthy_container
    [of "JObject False 7" "\<lparr>TaskContext = JUndefined, UIContext = JUndefined\<rparr>"]
  by simp

section \<open>Reading a container that is absent\<close>

text \<open>
  Claim C2, as the specification states it, says that the accessor throws if and only if
  the container is absent (undefined). The direction from throwing to absence fails: a
  container holding \<^verbatim>\<open>false\<close> is not undefined, and \<open>useTask\<close> throws on it.
\<close>

theorem useTask_throws_on_present_false:
  "JBoolean False \<noteq> JUndefined
   \<and> fst (useTask \<lparr>TaskContext = JBoolean False, UIContext = JUndefined\<rparr>)
       = Inl (Error ''useTask must be used within a TaskProvider'')"
  by (simp add: useTask_run)

text \<open>
  Claim C2, amended: when the container is absent (undefined) the accessor always throws
  its missing-Provider error; it throws if and only if the container value is falsy; and
  whenever it returns, the result is the container value itself, which is truthy and so
  neither undefined nor a default. This holds of \<open>useTask\<close> and of \<open>useUI\<close>.
\<close>

theorem accessor_throws_iff_falsy:
  "(TaskContext s = JUndefined \<longrightarrow>
      fst (useTask s) = Inl (Error ''useTask must be used within a TaskProvider''))
   \<and> (UIContext s = JUndefined \<longrightarrow>
      fst (useUI s) = Inl (Error ''useUI must be used within a UIProvider''))
   \<and> (isl (fst (useTask s)) \<longleftrightarrow> \<not> ToBoolean (TaskContext s))
   \<and> (isl (fst (useUI s)) \<longleftrightarrow> \<not> ToBoolean (UIContext s))
   \<and> (fst (useTask s) = Inr v \<longrightarrow> v = TaskContext s \<and> ToBoolean v \<and> v \<noteq> JUndefined)
   \<and> (fst (useUI s) = Inr v \<longrightarrow> v = UIContext s \<and> ToBoolean v \<and> v \<noteq> JUndefined)"
  by (auto simp add: useTask_run useUI_run split: if_splits)

theorem accessor_throws_iff_falsy_witness:
  "TaskContext \<lparr>TaskContext = JUndefined, UIContext = JUndefined\<rparr> = JUndefined
   \<and> UIContext \<lparr>TaskContext = JUndefined, UIContext = JUndefined\<rparr> = JUndefined
   \<and> fst (useTask \<lparr>TaskContext = JUndefined, UIContext = JUndefined\<rparr>)
       = Inl (Error ''useTask must be used within a TaskProvider'')
   \<and> fst (useUI \<lparr>TaskContext = JUndefined, UIContext = JUndefined\<rparr>)
       = Inl (Error ''useUI must be used within a UIProvider'')
   \<and> fst (useTask \<lparr>TaskContext = JObject False 3, UIContext = JObject False 3\<rparr>) = Inr (JObject False 3)
   \<and> fst (useUI \<lparr>TaskContext = JObject False 3, UIContext = JObject False 3\<rparr>) = Inr (JObject False 3)
   \<and> JObject False 3 = TaskContext \<lparr>TaskContext = JObject False 3, UIContext = JObject False 3\<rparr>
   \<and> JObject False 3 = UIContext \<lparr>TaskContext = JObject False 3, UIContext = JObject False 3\<rparr>
   \<and> ToBoolean (JObject False 3) \<and> JObject False 3 \<noteq> JUndefined"
  using accessor_throws_iff_falsy
      [of "\<lparr>TaskContext = JUndefined, UIContext = JUndefined\<rparr>" "JObject False 3"]
    accessor_throws_iff_falsy
      [of "\<lparr>TaskContext = JObject False 3, UIContext = JObject False 3\<rparr>" "JObject False 3"]
  by (simp add: useTask_run useUI_run)

section \<open>The only failure\<close>

text \<open>
  Claim C3, as the specification states it: when the container is present (not
  undefined) the hooks never throw. A UI Provider whose value is \<^verbatim>\<open>null\<close> is present,
  and \<open>useUI\<close> throws under it.
\<close>

theorem useUI_throws_on_present_null:
  "JNull \<noteq> JUndefined
   \<and> isl (fst (useUI \<lparr>TaskContext = JObject False 0, UIContext = JNull\<rparr>))"
  by (simp add: useUI_run)

text \<open>
  Claim C3, amended: the missing-Provider error is the only failure of the accessors.
  When the container holds a truthy value neither hook throws, and an error that a hook
  does throw is that hook's missing-Provider error, thrown on a falsy container.
\<close>

theorem missing_provider_is_only_failure:
  "(ToBoolean (TaskContext s) \<longrightarrow> \<not> isl (fst (useTask s)))
   \<and> (ToBoolean (UIContext s) \<longrightarrow> \<not> isl (fst (useUI s)))
   \<and> (fst (useTask s) = Inl e \<longrightarrow>
        e = Error ''useTask must be used within a TaskProvider'' \<and> \<not> ToBoolean (TaskContext s))
   \<and> (fst (useUI s) = Inl e' \<longrightarrow>
        e' = Error ''useUI must be used within a UIProvider'' \<and> \<not> ToBoolean (UIContext s))"
  by (auto simp add: useTask_run useUI_run split: if_splits)

theorem missing_provider_is_only_failure_witness:
  "ToBoolean (TaskContext \<lparr>TaskContext = JObject False 1, UIContext = JObject False 2\<rparr>)
   \<and> ToBoolean (UIContext \<lparr>TaskContext = JObject False 1, UIContext = JObject False 2\<rparr>)
   \<and> \<not> isl (fst (useTask \<lparr>TaskContext = JObject False 1, UIContext = JObject False 2\<rparr>))
   \<and> \<not> isl (fst (useUI \<lparr>TaskContext = JObject False 1, UIContext = JObject False 2\<rparr>))
   \<and> fst (useTask \<lparr>TaskContext = JUndefined, UIContext = JUndefined\<rparr>)
       = Inl (Error ''useTask must be used within a TaskProvider'')
   \<and> fst (useUI \<lparr>TaskContext = JUndefined, UIContext = JUndefined\<rparr>)
       = Inl (Error ''useUI must be used within a UIProvider'')
   \<and> \<not> ToBoolean (TaskContext \<lparr>TaskContext = JUndefined, UIContext = JUndefined\<rparr>)
   \<and> \<not> ToBoolean (UIContext \<lparr>TaskContext = JUndefined, UIContext = JUndefined\<rparr>)"
  using missing_provider_is_only_failure
      [of "\<lparr>TaskContext = JObject False 1, UIContext = JObject False 2\<rparr>"
          "Error ''useTask must be used within a TaskProvider''"
          "Error ''useUI must be used within a UIProvider''"]
    missing_provider_is_only_failure
      [of "\<lparr>TaskContext = JUndefined, UIContext = JUndefined\<rparr>"
          "Error ''useTask must be used within a TaskProvider''"
          "Error ''useUI must be used within a UIProvider''"]
  by (simp add: useTask_run useUI_run)

section \<open>The error messages\<close>

text \<open>
  Claim C4. When \<open>useTask\<close> fails because no TaskProvider is in the ancestry (the task
  container is undefined), the error it throws carries exactly the message
  "useTask must be used within a TaskProvider".
\<close>

theorem useTask_missing_provider_message:
  "TaskContext s = JUndefined \<Longrightarrow>
     fst (useTask s) = Inl (Error ''useTask must be used within a TaskProvider'')"
  by (simp add: useTask_run)

text \<open>
  The specification's scenario: a UI Provider alone wraps the consumer, which calls both
  hooks.
\<close>

theorem useTask_missing_provider_message_witness:
  "TaskContext \<lparr>TaskContext = JUndefined, UIContext = JObject False 1\<rparr> = JUndefined
   \<and> fst (useTask \<lparr>TaskContext = JUndefined, UIContext = JObject False 1\<rparr>)
       = Inl (Error ''useTask must be used within a TaskProvider'')
   \<and> fst (useUI \<lparr>TaskContext = JUndefined, UIContext = JObject False 1\<rparr>) = Inr (JObject False 1)"
  using useTask_missing_provider_message
    [of "\<lparr>TaskContext = JUndefined, UIContext = JObject False 1\<rparr>"]
  by (simp add: useUI_run)

text \<open>
  Claim C10. When \<open>useUI\<close> fails because no UIProvider is in the ancestry (the UI
  container is undefined), the error it throws carries exactly the message
  "useUI must be used within a UIProvider". That message differs from the one of
  \<open>useTask\<close>, so no failure of \<open>useTask\<close> can be taken for this one.
\<close>

theorem useUI_missing_provider_message:
  "UIContext s = JUndefined \<Longrightarrow>
     fst (useUI s) = Inl (Error ''useUI must be used within a UIProvider'')
     \<and> ''useUI must be used within a UIProvider'' \<noteq> ''useTask must be used within a TaskProvider''
     \<and> (isl (fst (useTask t)) \<longrightarrow> fst (useTask t) \<noteq> fst (useUI s))"
  by (simp add: useTask_run useUI_run)

theorem useUI_missing_provider_message_witness:
  "UIContext \<lparr>TaskContext = JObject False 1, UIContext = JUndefined\<rparr> = JUndefined
   \<and> fst (useUI \<lparr>TaskContext = JObject False 1, UIContext = JUndefined\<rparr>)
       = Inl (Error ''useUI must be used within a UIProvider'')
   \<and> isl (fst (useTask \<lparr>TaskContext = JUndefined, UIContext = JUndefined\<rparr>))
   \<and> fst (useTask \<lparr>TaskContext = JUndefined, UIContext = JUndefined\<rparr>)
       \<noteq> fst (useUI \<lparr>TaskContext = JObject False 1, UIContext = JUndefined\<rparr>)"
  using useUI_missing_provider_message
    [of "\<lparr>TaskContext = JObject False 1, UIContext = JUndefined\<rparr>"
        "\<lparr>TaskContext = JUndefined, UIContext = JUndefined\<rparr>"]
  by (simp add: useTask_run)

section \<open>Falsy containers\<close>

text \<open>
  Claim C9. The presence check of both hooks is the falsiness test \<^verbatim>\<open>!context\<close>, not a
  test for undefined alone: on every falsy container value the hook throws its
  missing-Provider error, with the same outcome as under an absent Provider. Undefined,
  \<^verbatim>\<open>null\<close>, \<^verbatim>\<open>false\<close>, both zeros, the empty string and NaN are such values.
\<close>

theorem falsy_container_throws:
  "(\<not> ToBoolean v \<longrightarrow>
      fst (useTask (s\<lparr>TaskContext := v\<rparr>)) = Inl (Error ''useTask must be used within a TaskProvider'')
      \<and> fst (useUI (s\<lparr>UIContext := v\<rparr>)) = Inl (Error ''useUI must be used within a UIProvider'')
      \<and> fst (useTask (s\<lparr>TaskContext := v\<rparr>)) = fst (useTask (s\<lparr>TaskContext := JUndefined\<rparr>))
      \<and> fst (useUI (s\<lparr>UIContext := v\<rparr>)) = fst (useUI (s\<lparr>UIContext := JUndefined\<rparr>)))
   \<and> \<not> ToBoolean JUndefined
   \<and> \<not> ToBoolean JNull
   \<and> \<not> ToBoolean (JBoolean False)
   \<and> \<not> ToBoolean (JNumber (Finite sign 0 exponent))
   \<and> \<not> ToBoolean (JString '''')
   \<and> \<not> ToBoolean (JNumber NaN)"
  by (simp add: useTask_run useUI_run)

theorem falsy_container_throws_witness:
  "\<not> ToBoolean (JNumber (Finite False 0 0))
   \<and> fst (useTask (\<lparr>TaskContext = JObject False 1, UIContext = JObject False 2\<rparr>
                     \<lparr>TaskContext := JNumber (Finite False 0 0)\<rparr>))
       = Inl (Error ''useTask must be used within a TaskProvider'')
   \<and> fst (useUI (\<lparr>TaskContext = JObject False 1, UIContext = JObject False 2\<rparr>
                   \<lparr>UIContext := JNumber (Finite False 0 0)\<rparr>))
       = Inl (Error ''useUI must be used within a UIProvider'')"
  using falsy_container_throws
    [of "JNumber (Finite False 0 0)" "\<lparr>TaskContext = JObject False 1, UIContext = JObject False 2\<rparr>"
        False 0]
  by simp

section \<open>Independence, determinism, and the common pattern\<close>

text \<open>
  Claim C5. The two accessors do not interfere: two ambient states that agree on the UI
  container give \<open>useUI\<close> the same outcome (the same value or the same error), whatever
  the task container is or holds; and two states that agree on the task container give
  \<open>useTask\<close> the same outcome.
\<close>

theorem accessors_independent:
  "(UIContext s = UIContext s' \<longrightarrow> fst (useUI s) = fst (useUI s'))
   \<and> (TaskContext s = TaskContext s' \<longrightarrow> fst (useTask s) = fst (useTask s'))"
  by (simp add: useTask_run useUI_run)

theorem accessors_independent_witness:
  "UIContext \<lparr>TaskContext = JUndefined, UIContext = JObject False 1\<rparr>
     = UIContext \<lparr>TaskContext = JObject False 2, UIContext = JObject False 1\<rparr>
   \<and> fst (useUI \<lparr>TaskContext = JUndefined, UIContext = JObject False 1\<rparr>)
       = fst (useUI \<lparr>TaskContext = JObject False 2, UIContext = JObject False 1\<rparr>)
   \<and> TaskContext \<lparr>TaskContext = JObject False 2, UIContext = JObject False 1\<rparr>
       = TaskContext \<lparr>TaskContext = JObject False 2, UIContext = JUndefined\<rparr>
   \<and> fst (useTask \<lparr>TaskContext = JObject False 2, UIContext = JObject False 1\<rparr>)
       = fst (useTask \<lparr>TaskContext = JObject False 2, UIContext = JUndefined\<rparr>)"
  using accessors_independent
      [of "\<lparr>TaskContext = JUndefined, UIContext = JObject False 1\<rparr>"
          "\<lparr>TaskContext = JObject False 2, UIContext = JObject False 1\<rparr>"]
    accessors_independent
      [of "\<lparr>TaskContext = JObject False 2, UIContext = JObject False 1\<rparr>"
          "\<lparr>TaskContext = JObject False 2, UIContext = JUndefined\<rparr>"]
  by simp

text \<open>
  Claim C6. The accessors are deterministic: a second call, made in the state the first
  call leaves behind, has the result of the first, whether that is a value or an error,
  and a call of the other hook in between changes nothing.
\<close>

theorem repeated_calls_agree:
  "fst (useTask (snd (useTask s))) = fst (useTask s)
   \<and> fst (useUI (snd (useUI s))) = fst (useUI s)
   \<and> fst (useTask (snd (useUI s))) = fst (useTask s)
   \<and> fst (useUI (snd (useTask s))) = fst (useUI s)"
  by (simp add: useTask_run useUI_run)

text \<open>
  Claim C8. The two hooks are one accessor instantiated twice: given the same container
  value \<open>v\<close>, each in its own container, \<open>useTask\<close> returns \<open>v\<close> exactly when \<open>useUI\<close>
  returns \<open>v\<close> and throws exactly when \<open>useUI\<close> throws; their results are equal once
  the error message is forgotten.
\<close>

theorem hooks_same_pattern:
  "(fst (useTask \<lparr>TaskContext = v, UIContext = u\<rparr>) = Inr v
      \<longleftrightarrow> fst (useUI \<lparr>TaskContext = t, UIContext = v\<rparr>) = Inr v)
   \<and> (isl (fst (useTask \<lparr>TaskContext = v, UIContext = u\<rparr>))
      \<longleftrightarrow> isl (fst (useUI \<lparr>TaskContext = t, UIContext = v\<rparr>)))
   \<and> map_sum (\<lambda>e. ()) id (fst (useTask \<lparr>TaskContext = v, UIContext = u\<rparr>))
      = map_sum (\<lambda>e. ()) id (fst (useUI \<lparr>TaskContext = t, UIContext = v\<rparr>))"
  by (simp add: useTask_run useUI_run)

end
